theory Spec2Isabelle
  imports Complex_Main "HOL-Library.Word"
begin

section \<open>Data model of \<open>g_d3dmath.h\<close>\<close>

text \<open>
  The header works on IEEE-754 single precision numbers (\<open>float\<close>). This development
  reads every \<open>float\<close> as a real number and every operation \<open>+ - * /\<close>, \<open>sqrtf\<close>,
  \<open>sinf\<close>, \<open>cosf\<close>, \<open>tanf\<close> as its exact counterpart: rounding, infinities and NaN
  are left out. A comparison \<open>d == 0.0f\<close> is equality with \<open>0\<close>. The concrete
  matrices, planes and points evaluated below have small integer entries, on which the
  binary32 operations involved are exact, so those evaluations are also the ones of the
  compiled code; the one evaluation that involves \<open>0.1\<close> and \<open>\<pi> / 4\<close> shows a gap
  of about \<open>0.2\<close>, far above any rounding error.

  Record fields are global constants in Isabelle, so the one-letter field names of the
  C structs carry a suffix or prefix (\<open>x3\<close> for \<open>vector3_t.x\<close>, \<open>pa\<close> for
  \<open>plane_t.a\<close>); the array \<open>float n[16]\<close> of \<open>matrix4_t\<close> is a record of the sixteen
  entries \<open>n0 \<dots> n15\<close>.
\<close>

record vector3_t =
  x3 :: real
  y3 :: real
  z3 :: real
  pad3 :: real

record vector4_t =
  x4 :: real
  y4 :: real
  z4 :: real
  w4 :: real

record matrix4_t =
  n0 :: real
  n1 :: real
  n2 :: real
  n3 :: real
  n4 :: real
  n5 :: real
  n6 :: real
  n7 :: real
  n8 :: real
  n9 :: real
  n10 :: real
  n11 :: real
  n12 :: real
  n13 :: real
  n14 :: real
  n15 :: real

record plane_t =
  pa :: real
  pb :: real
  pc :: real
  pd :: real

record viewport_t =
  vp_x :: "32 word"
  vp_y :: "32 word"
  vp_w :: "32 word"
  vp_h :: "32 word"
  minZ :: real
  maxZ :: real

text \<open>\<open>#define H_PI 1.57079633f\<close>\<close>

definition H_PI :: real where
  "H_PI = 157079633 / 100000000"

section \<open>VECTOR4\<close>

text \<open>\<open>Vector4(x, y, z, w)\<close>; the call \<open>Vector4()\<close> of the source is \<open>Vector4 0 0 0 0\<close>.\<close>

definition Vector4 :: "real \<Rightarrow> real \<Rightarrow> real \<Rightarrow> real \<Rightarrow> vector4_t" where
  "Vector4 x y z w = \<lparr>x4 = x, y4 = y, z4 = z, w4 = w\<rparr>"

definition DotVector4 :: "vector4_t \<Rightarrow> vector4_t \<Rightarrow> real" where
  "DotVector4 a b = x4 a * x4 b + y4 a * y4 b + z4 a * z4 b + w4 a * w4 b"

definition SubtractVector4 :: "vector4_t \<Rightarrow> vector4_t \<Rightarrow> vector4_t" where
  "SubtractVector4 a b =
     (let v = Vector4 0 0 0 0;
          v = v\<lparr>x4 := x4 a - x4 b\<rparr>;
          v = v\<lparr>y4 := y4 a - y4 b\<rparr>;
          v = v\<lparr>z4 := z4 a - z4 b\<rparr>;
          v = v\<lparr>w4 := w4 a + w4 b\<rparr>
      in v)"

definition TransformVector4 :: "vector4_t \<Rightarrow> matrix4_t \<Rightarrow> vector4_t" where
  "TransformVector4 v m =
     (let a = Vector4 0 0 0 0;
          a = a\<lparr>x4 := x4 v * n0 m + y4 v * n4 m + z4 v * n8 m + w4 v * n12 m\<rparr>;
          a = a\<lparr>y4 := x4 v * n1 m + y4 v * n5 m + z4 v * n9 m + w4 v * n13 m\<rparr>;
          a = a\<lparr>z4 := x4 v * n2 m + y4 v * n6 m + z4 v * n10 m + w4 v * n14 m\<rparr>;
          a = a\<lparr>w4 := x4 v * n3 m + y4 v * n7 m + z4 v * n11 m + w4 v * n15 m\<rparr>
      in a)"

section \<open>VECTOR3\<close>

text \<open>\<open>Vector3(x, y, z)\<close> starts from \<open>vector3_t v = {}\<close>, so the padding is zero.\<close>

definition Vector3 :: "real \<Rightarrow> real \<Rightarrow> real \<Rightarrow> vector3_t" where
  "Vector3 x y z = \<lparr>x3 = x, y3 = y, z3 = z, pad3 = 0\<rparr>"

definition AddVector3 :: "vector3_t \<Rightarrow> vector3_t \<Rightarrow> vector3_t" where
  "AddVector3 a b =
     (let v = Vector3 0 0 0;
          v = v\<lparr>x3 := x3 a + x3 b\<rparr>;
          v = v\<lparr>y3 := y3 a + y3 b\<rparr>;
          v = v\<lparr>z3 := z3 a + z3 b\<rparr>
      in v)"

definition DotVector3 :: "vector3_t \<Rightarrow> vector3_t \<Rightarrow> real" where
  "DotVector3 a b = x3 a * x3 b + y3 a * y3 b + z3 a * z3 b"

definition LengthVector3 :: "vector3_t \<Rightarrow> real" where
  "LengthVector3 a = sqrt (DotVector3 a a)"

definition NormalizeVector3 :: "vector3_t \<Rightarrow> vector3_t" where
  "NormalizeVector3 a =
     (let v = Vector3 0 0 0 in
      if x3 a \<noteq> 0 \<or> y3 a \<noteq> 0 \<or> z3 a \<noteq> 0 then
        (let l = sqrt (DotVector3 a a);
             v = v\<lparr>x3 := x3 a * (1 / l)\<rparr>;
             v = v\<lparr>y3 := y3 a * (1 / l)\<rparr>;
             v = v\<lparr>z3 := z3 a * (1 / l)\<rparr>
         in v)
      else v)"

definition ScaleVector3 :: "vector3_t \<Rightarrow> real \<Rightarrow> vector3_t" where
  "ScaleVector3 a s =
     (let v = Vector3 0 0 0;
          v = v\<lparr>x3 := x3 a * s\<rparr>;
          v = v\<lparr>y3 := y3 a * s\<rparr>;
          v = v\<lparr>z3 := z3 a * s\<rparr>
      in v)"

definition SubtractVector3 :: "vector3_t \<Rightarrow> vector3_t \<Rightarrow> vector3_t" where
  "SubtractVector3 a b =
     (let v = Vector3 0 0 0;
          v = v\<lparr>x3 := x3 a - x3 b\<rparr>;
          v = v\<lparr>y3 := y3 a - y3 b\<rparr>;
          v = v\<lparr>z3 := z3 a - z3 b\<rparr>
      in v)"

definition TransformVector3Coord :: "vector3_t \<Rightarrow> matrix4_t \<Rightarrow> vector3_t" where
  "TransformVector3Coord v m =
     (let a = Vector3 0 0 0;
          a = a\<lparr>x3 := x3 v * n0 m + y3 v * n4 m + z3 v * n8 m + n12 m\<rparr>;
          a = a\<lparr>y3 := x3 v * n1 m + y3 v * n5 m + z3 v * n9 m + n13 m\<rparr>;
          a = a\<lparr>z3 := x3 v * n2 m + y3 v * n6 m + z3 v * n10 m + n14 m\<rparr>
      in a)"

definition TransformVector3Normal :: "vector3_t \<Rightarrow> matrix4_t \<Rightarrow> vector3_t" where
  "TransformVector3Normal v m =
     (let a = Vector3 0 0 0;
          a = a\<lparr>x3 := x3 v * n0 m + y3 v * n4 m + z3 v * n8 m + n12 m\<rparr>;
          a = a\<lparr>y3 := x3 v * n1 m + y3 v * n5 m + z3 v * n9 m + n13 m\<rparr>;
          a = a\<lparr>z3 := x3 v * n2 m + y3 v * n6 m + z3 v * n10 m + n14 m\<rparr>
      in a)"

section \<open>PLANE\<close>

definition Plane :: "real \<Rightarrow> real \<Rightarrow> real \<Rightarrow> real \<Rightarrow> plane_t" where
  "Plane a b c d = \<lparr>pa = a, pb = b, pc = c, pd = d\<rparr>"

definition DotPlaneCoordinate :: "plane_t \<Rightarrow> vector3_t \<Rightarrow> real" where
  "DotPlaneCoordinate p position =
     DotVector4 (Vector4 (pa p) (pb p) (pc p) (pd p))
       (Vector4 (x3 position) (y3 position) (z3 position) 1)"

text \<open>
  \<open>LineIntersectPlane\<close>: the locals \<open>d0\<close>, \<open>d1\<close> hold the lengths of the two end points
  (their distances from the origin), swapped together with \<open>v0\<close>, \<open>v1\<close> so that
  \<open>d0 \<le> d1\<close>; the branch is taken on \<open>plane.d\<close> lying strictly between them.
\<close>

definition LineIntersectPlane :: "plane_t \<Rightarrow> vector3_t \<Rightarrow> vector3_t \<Rightarrow> vector3_t" where
  "LineIntersectPlane plane p0 p1 =
     (let d0 = LengthVector3 p0;
          d1 = LengthVector3 p1;
          (d0, d1, v0, v1) = (if d1 < d0 then (d1, d0, p1, p0) else (d0, d1, p0, p1))
      in
      if pd plane > d0 \<and> pd plane < d1 then
        (let v2 = Vector3 (pa plane) (pb plane) (pc plane);
             v3 = SubtractVector3 v1 v0;
             d0 = DotVector3 v2 v0 + pd plane;
             d1 = LengthVector3 v3;
             d2 = d0 / d1
         in AddVector3 v0 (ScaleVector3 v3 d2))
      else
        (if (pd plane - d0) \<le> (pd plane - d1) then v0 else v1))"

definition NormalizePlane :: "plane_t \<Rightarrow> plane_t" where
  "NormalizePlane p =
     (let v = NormalizeVector3 (Vector3 (pa p) (pb p) (pc p))
      in Plane (x3 v) (y3 v) (z3 v) (pd p))"

section \<open>MATRIX4\<close>

text \<open>
  \<open>Matrix4(_11, \<dots>, _44)\<close> in row-major argument order; the call \<open>Matrix4()\<close> of the
  source takes the default arguments, the identity matrix \<open>Matrix4_default\<close>.
\<close>

definition Matrix4 :: "real \<Rightarrow> real \<Rightarrow> real \<Rightarrow> real \<Rightarrow> real \<Rightarrow> real \<Rightarrow> real \<Rightarrow> real \<Rightarrow>
    real \<Rightarrow> real \<Rightarrow> real \<Rightarrow> real \<Rightarrow> real \<Rightarrow> real \<Rightarrow> real \<Rightarrow> real \<Rightarrow> matrix4_t" where
  "Matrix4 m11 m12 m13 m14 m21 m22 m23 m24 m31 m32 m33 m34 m41 m42 m43 m44 =
     \<lparr>n0 = m11, n1 = m12, n2 = m13, n3 = m14,
      n4 = m21, n5 = m22, n6 = m23, n7 = m24,
      n8 = m31, n9 = m32, n10 = m33, n11 = m34,
      n12 = m41, n13 = m42, n14 = m43, n15 = m44\<rparr>"

definition Matrix4_default :: matrix4_t where
  "Matrix4_default = Matrix4 1 0 0 0  0 1 0 0  0 0 1 0  0 0 0 1"

text \<open>\<open>DeterminantMatrix4\<close>: the eight products of the source, with the source's signs.\<close>

definition DeterminantMatrix4 :: "matrix4_t \<Rightarrow> real" where
  "DeterminantMatrix4 m =
     n0 m * n5 m * n10 m * n15 m +
     n4 m * n9 m * n14 m * n3 m +
     n8 m * n13 m * n2 m * n7 m +
     n12 m * n1 m * n6 m * n11 m -
     n12 m * n9 m * n6 m * n3 m +
     n8 m * n5 m * n2 m * n15 m +
     n4 m * n1 m * n14 m * n11 m +
     n0 m * n13 m * n10 m * n7 m"

text \<open>
  \<open>InverseMatrix4\<close>: the sixteen accumulations \<open>a.n[i] += \<dots>\<close> / \<open>a.n[i] -= \<dots>\<close> in
  the order of the source, the test \<open>d == 0.0f\<close> returning \<open>Matrix4()\<close>, then the
  sixteen scalings by \<open>1.0f / d\<close>.
\<close>

definition InverseMatrix4 :: "matrix4_t \<Rightarrow> matrix4_t" where
  "InverseMatrix4 m =
     (let a = Matrix4 0 0 0 0  0 0 0 0  0 0 0 0  0 0 0 0;
          a = a\<lparr>n0 := n0 a +
                (n5 m * n10 m * n15 m + n9 m * n14 m * n7 m + n13 m * n6 m * n11 m
                 - n13 m * n10 m * n7 m - n9 m * n6 m * n15 m - n5 m * n14 m * n11 m)\<rparr>;
          a = a\<lparr>n4 := n4 a -
                (n4 m * n10 m * n15 m + n8 m * n14 m * n7 m + n12 m * n6 m * n11 m
                 - n12 m * n10 m * n7 m - n8 m * n6 m * n15 m - n4 m * n14 m * n11 m)\<rparr>;
          a = a\<lparr>n8 := n8 a +
                (n4 m * n9 m * n15 m + n8 m * n13 m * n7 m + n12 m * n5 m * n11 m
                 - n12 m * n9 m * n7 m - n8 m * n5 m * n15 m - n4 m * n13 m * n11 m)\<rparr>;
          a = a\<lparr>n12 := n12 a -
                (n4 m * n9 m * n14 m + n8 m * n13 m * n6 m + n12 m * n5 m * n10 m
                 - n12 m * n9 m * n6 m - n8 m * n5 m * n14 m - n4 m * n13 m * n10 m)\<rparr>;
          a = a\<lparr>n1 := n1 a -
                (n1 m * n10 m * n15 m + n9 m * n14 m * n3 m + n13 m * n2 m * n11 m
                 - n13 m * n10 m * n3 m - n9 m * n2 m * n15 m - n1 m * n14 m * n11 m)\<rparr>;
          a = a\<lparr>n5 := n5 a +
                (n0 m * n10 m * n15 m + n8 m * n14 m * n3 m + n12 m * n2 m * n11 m
                 - n12 m * n10 m * n3 m - n8 m * n2 m * n15 m - n0 m * n14 m * n11 m)\<rparr>;
          a = a\<lparr>n9 := n9 a -
                (n0 m * n9 m * n15 m + n8 m * n13 m * n3 m + n12 m * n1 m * n11 m
                 - n12 m * n9 m * n3 m - n8 m * n1 m * n15 m - n0 m * n13 m * n11 m)\<rparr>;
          a = a\<lparr>n13 := n13 a +
                (n0 m * n9 m * n14 m + n8 m * n13 m * n2 m + n12 m * n1 m * n10 m
                 - n12 m * n9 m * n2 m - n8 m * n1 m * n14 m - n0 m * n13 m * n10 m)\<rparr>;
          a = a\<lparr>n2 := n2 a +
                (n1 m * n6 m * n15 m + n5 m * n14 m * n3 m + n13 m * n2 m * n7 m
                 - n13 m * n6 m * n3 m - n5 m * n2 m * n15 m - n1 m * n14 m * n7 m)\<rparr>;
          a = a\<lparr>n6 := n6 a -
                (n0 m * n6 m * n15 m + n4 m * n14 m * n3 m + n12 m * n2 m * n7 m
                 - n12 m * n6 m * n3 m - n4 m * n2 m * n15 m - n0 m * n14 m * n7 m)\<rparr>;
          a = a\<lparr>n10 := n10 a +
                (n0 m * n5 m * n15 m + n4 m * n13 m * n3 m + n12 m * n1 m * n7 m
                 - n12 m * n5 m * n3 m - n4 m * n1 m * n15 m - n0 m * n13 m * n7 m)\<rparr>;
          a = a\<lparr>n14 := n14 a -
                (n0 m * n5 m * n14 m + n4 m * n13 m * n2 m + n12 m * n1 m * n6 m
                 - n12 m * n5 m * n2 m - n4 m * n1 m * n14 m - n0 m * n13 m * n6 m)\<rparr>;
          a = a\<lparr>n3 := n3 a -
                (n1 m * n6 m * n14 m + n5 m * n10 m * n3 m + n9 m * n2 m * n7 m
                 - n9 m * n6 m * n3 m - n5 m * n2 m * n11 m - n1 m * n10 m * n7 m)\<rparr>;
          a = a\<lparr>n7 := n7 a +
                (n0 m * n6 m * n11 m + n4 m * n10 m * n3 m + n8 m * n2 m * n7 m
                 - n8 m * n6 m * n3 m - n4 m * n2 m * n11 m - n0 m * n10 m * n7 m)\<rparr>;
          a = a\<lparr>n11 := n11 a -
                (n0 m * n5 m * n11 m + n4 m * n9 m * n3 m + n8 m * n1 m * n7 m
                 - n8 m * n5 m * n3 m - n4 m * n1 m * n11 m - n0 m * n9 m * n7 m)\<rparr>;
          a = a\<lparr>n15 := n15 a +
                (n0 m * n5 m * n10 m + n4 m * n9 m * n2 m + n8 m * n1 m * n6 m
                 - n8 m * n5 m * n2 m - n4 m * n1 m * n10 m - n0 m * n9 m * n6 m)\<rparr>;
          d = DeterminantMatrix4 m
      in
      if d = 0 then Matrix4_default
      else
        (let d = 1 / d;
             a = a\<lparr>n0 := n0 a * d\<rparr>;
             a = a\<lparr>n1 := n1 a * d\<rparr>;
             a = a\<lparr>n2 := n2 a * d\<rparr>;
             a = a\<lparr>n3 := n3 a * d\<rparr>;
             a = a\<lparr>n4 := n4 a * d\<rparr>;
             a = a\<lparr>n5 := n5 a * d\<rparr>;
             a = a\<lparr>n6 := n6 a * d\<rparr>;
             a = a\<lparr>n7 := n7 a * d\<rparr>;
             a = a\<lparr>n8 := n8 a * d\<rparr>;
             a = a\<lparr>n9 := n9 a * d\<rparr>;
             a = a\<lparr>n10 := n10 a * d\<rparr>;
             a = a\<lparr>n11 := n11 a * d\<rparr>;
             a = a\<lparr>n12 := n12 a * d\<rparr>;
             a = a\<lparr>n13 := n13 a * d\<rparr>;
             a = a\<lparr>n14 := n14 a * d\<rparr>;
             a = a\<lparr>n15 := n15 a * d\<rparr>
         in a))"

definition MultiplyMatrix4 :: "matrix4_t \<Rightarrow> matrix4_t \<Rightarrow> matrix4_t" where
  "MultiplyMatrix4 a b =
     (let m = Matrix4_default;
          m = m\<lparr>n0 := n0 a * n0 b + n1 a * n4 b + n2 a * n8 b + n3 a * n12 b\<rparr>;
          m = m\<lparr>n1 := n0 a * n1 b + n1 a * n5 b + n2 a * n9 b + n3 a * n13 b\<rparr>;
          m = m\<lparr>n2 := n0 a * n2 b + n1 a * n6 b + n2 a * n10 b + n3 a * n14 b\<rparr>;
          m = m\<lparr>n3 := n0 a * n3 b + n1 a * n7 b + n2 a * n11 b + n3 a * n15 b\<rparr>;
          m = m\<lparr>n4 := n4 a * n0 b + n5 a * n4 b + n6 a * n8 b + n7 a * n12 b\<rparr>;
          m = m\<lparr>n5 := n4 a * n1 b + n5 a * n5 b + n6 a * n9 b + n7 a * n13 b\<rparr>;
          m = m\<lparr>n6 := n4 a * n2 b + n5 a * n6 b + n6 a * n10 b + n7 a * n14 b\<rparr>;
          m = m\<lparr>n7 := n4 a * n3 b + n5 a * n7 b + n6 a * n11 b + n7 a * n15 b\<rparr>;
          m = m\<lparr>n8 := n8 a * n0 b + n9 a * n4 b + n10 a * n8 b + n11 a * n12 b\<rparr>;
          m = m\<lparr>n9 := n8 a * n1 b + n9 a * n5 b + n10 a * n9 b + n11 a * n13 b\<rparr>;
          m = m\<lparr>n10 := n8 a * n2 b + n9 a * n6 b + n10 a * n10 b + n11 a * n14 b\<rparr>;
          m = m\<lparr>n11 := n8 a * n3 b + n9 a * n7 b + n10 a * n11 b + n11 a * n15 b\<rparr>;
          m = m\<lparr>n12 := n12 a * n0 b + n13 a * n4 b + n14 a * n8 b + n15 a * n12 b\<rparr>;
          m = m\<lparr>n13 := n12 a * n1 b + n13 a * n5 b + n14 a * n9 b + n15 a * n13 b\<rparr>;
          m = m\<lparr>n14 := n12 a * n2 b + n13 a * n6 b + n14 a * n10 b + n15 a * n14 b\<rparr>;
          m = m\<lparr>n15 := n12 a * n3 b + n13 a * n7 b + n14 a * n11 b + n15 a * n15 b\<rparr>
      in m)"

definition OrthographicOffCenterLHMatrix4 ::
    "real \<Rightarrow> real \<Rightarrow> real \<Rightarrow> real \<Rightarrow> real \<Rightarrow> real \<Rightarrow> matrix4_t" where
  "OrthographicOffCenterLHMatrix4 l r t b zn zf =
     Matrix4
       (2 / (r - l)) 0 0 0
       0 (2 / (t - b)) 0 0
       0 0 (1 / (zf - zn)) 0
       ((l + r) / (l - r)) ((t + b) / (b - t)) (zn / (zn - zf)) 1"

definition PerspectiveFovLHMatrix4 :: "real \<Rightarrow> real \<Rightarrow> real \<Rightarrow> real \<Rightarrow> matrix4_t" where
  "PerspectiveFovLHMatrix4 fovy aspect zn zf =
     (let yScale = tan (H_PI - (fovy / 2));
          xScale = yScale / aspect
      in Matrix4
           xScale 0 0 0
           0 yScale 0 0
           0 0 (zf / (zf - zn)) 1
           0 0 ((- zn * zf) / (zf - zn)) 0)"

definition RotationXMatrix4 :: "real \<Rightarrow> matrix4_t" where
  "RotationXMatrix4 angle =
     (let m = Matrix4_default;
          m = m\<lparr>n5 := cos angle\<rparr>;
          m = m\<lparr>n6 := sin angle\<rparr>;
          m = m\<lparr>n9 := - n6 m\<rparr>;
          m = m\<lparr>n10 := n5 m\<rparr>
      in m)"

definition RotationYMatrix4 :: "real \<Rightarrow> matrix4_t" where
  "RotationYMatrix4 angle =
     (let m = Matrix4_default;
          m = m\<lparr>n0 := cos angle\<rparr>;
          m = m\<lparr>n2 := - sin angle\<rparr>;
          m = m\<lparr>n8 := - n2 m\<rparr>;
          m = m\<lparr>n10 := n0 m\<rparr>
      in m)"

definition RotationZMatrix4 :: "real \<Rightarrow> matrix4_t" where
  "RotationZMatrix4 angle =
     (let m = Matrix4_default;
          m = m\<lparr>n0 := cos angle\<rparr>;
          m = m\<lparr>n1 := sin angle\<rparr>;
          m = m\<lparr>n4 := - n1 m\<rparr>;
          m = m\<lparr>n5 := n0 m\<rparr>
      in m)"

definition RotationYawPitchRollMatrix4 :: "real \<Rightarrow> real \<Rightarrow> real \<Rightarrow> matrix4_t" where
  "RotationYawPitchRollMatrix4 y p r =
     MultiplyMatrix4 (RotationZMatrix4 r)
       (MultiplyMatrix4 (RotationXMatrix4 p) (RotationYMatrix4 y))"

section \<open>VIEWPORT\<close>

text \<open>
  The viewport's origin and extent are \<open>uint32_t\<close>: \<open>viewport.x + viewport.w\<close> is
  computed modulo \<open>2 ^ 32\<close> before the cast to \<open>float\<close>, which is \<open>to_float\<close>.
\<close>

definition Viewport :: "32 word \<Rightarrow> 32 word \<Rightarrow> 32 word \<Rightarrow> 32 word \<Rightarrow> real \<Rightarrow> real \<Rightarrow> viewport_t" where
  "Viewport x y w h mn mx = \<lparr>vp_x = x, vp_y = y, vp_w = w, vp_h = h, minZ = mn, maxZ = mx\<rparr>"

definition to_float :: "32 word \<Rightarrow> real" where
  "to_float u = real (unat u)"

definition ProjectViewport ::
    "vector3_t \<Rightarrow> viewport_t \<Rightarrow> matrix4_t \<Rightarrow> matrix4_t \<Rightarrow> matrix4_t \<Rightarrow> vector3_t" where
  "ProjectViewport v viewport projection view world =
     (let t = MultiplyMatrix4
                (OrthographicOffCenterLHMatrix4 (to_float (vp_x viewport))
                   (to_float (vp_x viewport + vp_w viewport)) (to_float (vp_y viewport))
                   (to_float (vp_y viewport + vp_h viewport)) (minZ viewport) (maxZ viewport))
                (MultiplyMatrix4 projection (MultiplyMatrix4 view world))
      in TransformVector3Coord v t)"

definition UnprojectViewport ::
    "vector3_t \<Rightarrow> viewport_t \<Rightarrow> matrix4_t \<Rightarrow> matrix4_t \<Rightarrow> matrix4_t \<Rightarrow> vector3_t" where
  "UnprojectViewport v viewport projection view world =
     (let t = MultiplyMatrix4 world
                (MultiplyMatrix4 view
                   (MultiplyMatrix4 projection
                      (OrthographicOffCenterLHMatrix4 (to_float (vp_x viewport))
                         (to_float (vp_x viewport + vp_w viewport)) (to_float (vp_y viewport))
                         (to_float (vp_y viewport + vp_h viewport)) (minZ viewport)
                         (maxZ viewport))))
      in TransformVector3Coord v t)"

section \<open>Reference definitions\<close>

text \<open>
  The general determinant of a 4x4 matrix, by Laplace expansion along the first row. It
  is not part of the source: it is the "general 4x4 determinant formula" that the
  specification compares \<open>DeterminantMatrix4\<close> with.
\<close>

definition general_determinant4 :: "matrix4_t \<Rightarrow> real" where
  "general_determinant4 m =
     n0 m * (n5 m * (n10 m * n15 m - n11 m * n14 m)
             - n6 m * (n9 m * n15 m - n11 m * n13 m)
             + n7 m * (n9 m * n14 m - n10 m * n13 m))
   - n1 m * (n4 m * (n10 m * n15 m - n11 m * n14 m)
             - n6 m * (n8 m * n15 m - n11 m * n12 m)
             + n7 m * (n8 m * n14 m - n10 m * n12 m))
   + n2 m * (n4 m * (n9 m * n15 m - n11 m * n13 m)
             - n5 m * (n8 m * n15 m - n11 m * n12 m)
             + n7 m * (n8 m * n13 m - n9 m * n12 m))
   - n3 m * (n4 m * (n9 m * n14 m - n10 m * n13 m)
             - n5 m * (n8 m * n14 m - n10 m * n12 m)
             + n6 m * (n8 m * n13 m - n9 m * n12 m))"

text \<open>
  The value of the local \<open>a\<close> at the end of \<open>InverseMatrix4\<close>, in closed form: entry
  \<open>i\<close> is the sum accumulated into \<open>a.n[i]\<close> (negated where the source writes \<open>-=\<close>)
  times the factor \<open>d\<close>, which the source sets to \<open>1.0f / DeterminantMatrix4(m)\<close>.
\<close>

definition InverseMatrix4_scaled :: "matrix4_t \<Rightarrow> real \<Rightarrow> matrix4_t" where
  "InverseMatrix4_scaled m d =
     Matrix4
       (((n5 m * n10 m * n15 m + n9 m * n14 m * n7 m + n13 m * n6 m * n11 m
          - n13 m * n10 m * n7 m - n9 m * n6 m * n15 m - n5 m * n14 m * n11 m)) * d)
       ((- (n1 m * n10 m * n15 m + n9 m * n14 m * n3 m + n13 m * n2 m * n11 m
          - n13 m * n10 m * n3 m - n9 m * n2 m * n15 m - n1 m * n14 m * n11 m)) * d)
       (((n1 m * n6 m * n15 m + n5 m * n14 m * n3 m + n13 m * n2 m * n7 m
          - n13 m * n6 m * n3 m - n5 m * n2 m * n15 m - n1 m * n14 m * n7 m)) * d)
       ((- (n1 m * n6 m * n14 m + n5 m * n10 m * n3 m + n9 m * n2 m * n7 m
          - n9 m * n6 m * n3 m - n5 m * n2 m * n11 m - n1 m * n10 m * n7 m)) * d)
       ((- (n4 m * n10 m * n15 m + n8 m * n14 m * n7 m + n12 m * n6 m * n11 m
          - n12 m * n10 m * n7 m - n8 m * n6 m * n15 m - n4 m * n14 m * n11 m)) * d)
       (((n0 m * n10 m * n15 m + n8 m * n14 m * n3 m + n12 m * n2 m * n11 m
          - n12 m * n10 m * n3 m - n8 m * n2 m * n15 m - n0 m * n14 m * n11 m)) * d)
       ((- (n0 m * n6 m * n15 m + n4 m * n14 m * n3 m + n12 m * n2 m * n7 m
          - n12 m * n6 m * n3 m - n4 m * n2 m * n15 m - n0 m * n14 m * n7 m)) * d)
       (((n0 m * n6 m * n11 m + n4 m * n10 m * n3 m + n8 m * n2 m * n7 m
          - n8 m * n6 m * n3 m - n4 m * n2 m * n11 m - n0 m * n10 m * n7 m)) * d)
       (((n4 m * n9 m * n15 m + n8 m * n13 m * n7 m + n12 m * n5 m * n11 m
          - n12 m * n9 m * n7 m - n8 m * n5 m * n15 m - n4 m * n13 m * n11 m)) * d)
       ((- (n0 m * n9 m * n15 m + n8 m * n13 m * n3 m + n12 m * n1 m * n11 m
          - n12 m * n9 m * n3 m - n8 m * n1 m * n15 m - n0 m * n13 m * n11 m)) * d)
       (((n0 m * n5 m * n15 m + n4 m * n13 m * n3 m + n12 m * n1 m * n7 m
          - n12 m * n5 m * n3 m - n4 m * n1 m * n15 m - n0 m * n13 m * n7 m)) * d)
       ((- (n0 m * n5 m * n11 m + n4 m * n9 m * n3 m + n8 m * n1 m * n7 m
          - n8 m * n5 m * n3 m - n4 m * n1 m * n11 m - n0 m * n9 m * n7 m)) * d)
       ((- (n4 m * n9 m * n14 m + n8 m * n13 m * n6 m + n12 m * n5 m * n10 m
          - n12 m * n9 m * n6 m - n8 m * n5 m * n14 m - n4 m * n13 m * n10 m)) * d)
       (((n0 m * n9 m * n14 m + n8 m * n13 m * n2 m + n12 m * n1 m * n10 m
          - n12 m * n9 m * n2 m - n8 m * n1 m * n14 m - n0 m * n13 m * n10 m)) * d)
       ((- (n0 m * n5 m * n14 m + n4 m * n13 m * n2 m + n12 m * n1 m * n6 m
          - n12 m * n5 m * n2 m - n4 m * n1 m * n14 m - n0 m * n13 m * n6 m)) * d)
       (((n0 m * n5 m * n10 m + n4 m * n9 m * n2 m + n8 m * n1 m * n6 m
          - n8 m * n5 m * n2 m - n4 m * n1 m * n10 m - n0 m * n9 m * n6 m)) * d)"

section \<open>Auxiliary facts\<close>

lemma MultiplyMatrix4_entries:
  "MultiplyMatrix4 a b = Matrix4
     (n0 a * n0 b + n1 a * n4 b + n2 a * n8 b + n3 a * n12 b)
     (n0 a * n1 b + n1 a * n5 b + n2 a * n9 b + n3 a * n13 b)
     (n0 a * n2 b + n1 a * n6 b + n2 a * n10 b + n3 a * n14 b)
     (n0 a * n3 b + n1 a * n7 b + n2 a * n11 b + n3 a * n15 b)
     (n4 a * n0 b + n5 a * n4 b + n6 a * n8 b + n7 a * n12 b)
     (n4 a * n1 b + n5 a * n5 b + n6 a * n9 b + n7 a * n13 b)
     (n4 a * n2 b + n5 a * n6 b + n6 a * n10 b + n7 a * n14 b)
     (n4 a * n3 b + n5 a * n7 b + n6 a * n11 b + n7 a * n15 b)
     (n8 a * n0 b + n9 a * n4 b + n10 a * n8 b + n11 a * n12 b)
     (n8 a * n1 b + n9 a * n5 b + n10 a * n9 b + n11 a * n13 b)
     (n8 a * n2 b + n9 a * n6 b + n10 a * n10 b + n11 a * n14 b)
     (n8 a * n3 b + n9 a * n7 b + n10 a * n11 b + n11 a * n15 b)
     (n12 a * n0 b + n13 a * n4 b + n14 a * n8 b + n15 a * n12 b)
     (n12 a * n1 b + n13 a * n5 b + n14 a * n9 b + n15 a * n13 b)
     (n12 a * n2 b + n13 a * n6 b + n14 a * n10 b + n15 a * n14 b)
     (n12 a * n3 b + n13 a * n7 b + n14 a * n11 b + n15 a * n15 b)"
  by (simp add: MultiplyMatrix4_def Matrix4_default_def Matrix4_def)

lemma MultiplyMatrix4_assoc:
  "MultiplyMatrix4 (MultiplyMatrix4 a b) c = MultiplyMatrix4 a (MultiplyMatrix4 b c)"
  by (simp add: MultiplyMatrix4_entries Matrix4_def algebra_simps)

lemma MultiplyMatrix4_identity:
  "MultiplyMatrix4 m Matrix4_default = m" "MultiplyMatrix4 Matrix4_default m = m"
  by (simp_all add: MultiplyMatrix4_entries Matrix4_default_def Matrix4_def)

lemma InverseMatrix4_nonsingular:
  "DeterminantMatrix4 m \<noteq> 0 \<Longrightarrow>
     InverseMatrix4 m = InverseMatrix4_scaled m (1 / DeterminantMatrix4 m)"
  by (simp add: InverseMatrix4_def InverseMatrix4_scaled_def Matrix4_def Let_def)

text \<open>
  The guard of \<open>InverseMatrix4\<close>: it tests the value \<open>DeterminantMatrix4\<close> computes.
\<close>

lemma InverseMatrix4_guard:
  "DeterminantMatrix4 m = 0 \<Longrightarrow>
     InverseMatrix4 m = Matrix4 1 0 0 0  0 1 0 0  0 0 1 0  0 0 0 1"
  by (simp add: InverseMatrix4_def Matrix4_default_def)

text \<open>
  What the product of a matrix with the scaled cofactor matrix of the source is. Fifteen
  of the sixteen accumulated sums are the cofactors of \<open>m\<close>; the sum for \<open>a.n[3]\<close>
  starts with \<open>m.n[1] * m.n[6] * m.n[14]\<close> where the cofactor has
  \<open>m.n[1] * m.n[6] * m.n[11]\<close>, which leaves the last column of the product off by
  a multiple of \<open>n1 m * n6 m * (n14 m - n11 m)\<close>.
\<close>

lemma MultiplyMatrix4_InverseMatrix4_scaled:
  "MultiplyMatrix4 m (InverseMatrix4_scaled m d) =
     Matrix4 (general_determinant4 m * d) 0 0 (- (n0 m * (n1 m * n6 m * (n14 m - n11 m) * d)))
             0 (general_determinant4 m * d) 0 (- (n4 m * (n1 m * n6 m * (n14 m - n11 m) * d)))
             0 0 (general_determinant4 m * d) (- (n8 m * (n1 m * n6 m * (n14 m - n11 m) * d)))
             0 0 0 (general_determinant4 m * d - n12 m * (n1 m * n6 m * (n14 m - n11 m) * d))"
  unfolding MultiplyMatrix4_entries
  by (simp add: InverseMatrix4_scaled_def Matrix4_def general_determinant4_def algebra_simps)

lemma general_determinant4_repeated_row:
  assumes "(n0 m = n4 m \<and> n1 m = n5 m \<and> n2 m = n6 m \<and> n3 m = n7 m)
         \<or> (n0 m = n8 m \<and> n1 m = n9 m \<and> n2 m = n10 m \<and> n3 m = n11 m)
         \<or> (n0 m = n12 m \<and> n1 m = n13 m \<and> n2 m = n14 m \<and> n3 m = n15 m)
         \<or> (n4 m = n8 m \<and> n5 m = n9 m \<and> n6 m = n10 m \<and> n7 m = n11 m)
         \<or> (n4 m = n12 m \<and> n5 m = n13 m \<and> n6 m = n14 m \<and> n7 m = n15 m)
         \<or> (n8 m = n12 m \<and> n9 m = n13 m \<and> n10 m = n14 m \<and> n11 m = n15 m)"
  shows "general_determinant4 m = 0"
  using assms by (elim disjE conjE) (simp_all add: general_determinant4_def algebra_simps)

lemma NormalizePlane_d_unchanged: "pd (NormalizePlane p) = pd p"
  by (simp add: NormalizePlane_def Plane_def Let_def)

lemma NormalizePlane_unit_normal:
  assumes "pa p \<noteq> 0 \<or> pb p \<noteq> 0 \<or> pc p \<noteq> 0"
  shows "(pa (NormalizePlane p))\<^sup>2 + (pb (NormalizePlane p))\<^sup>2 + (pc (NormalizePlane p))\<^sup>2 = 1"
proof -
  define s where "s = pa p * pa p + pb p * pb p + pc p * pc p"
  have "0 < pa p * pa p \<or> 0 < pb p * pb p \<or> 0 < pc p * pc p"
    using assms by (simp add: zero_less_mult_iff) argo
  moreover have "0 \<le> pa p * pa p" "0 \<le> pb p * pb p" "0 \<le> pc p * pc p"
    by simp_all
  ultimately have pos: "0 < s"
    unfolding s_def by linarith
  have "(pa (NormalizePlane p))\<^sup>2 + (pb (NormalizePlane p))\<^sup>2 + (pc (NormalizePlane p))\<^sup>2
        = pa p * pa p / s + pb p * pb p / s + pc p * pc p / s"
    using assms pos
    by (simp add: NormalizePlane_def NormalizeVector3_def Plane_def Vector3_def DotVector3_def
        Let_def power_divide power2_eq_square s_def [symmetric])
  also have "\<dots> = (pa p * pa p + pb p * pb p + pc p * pc p) / s"
    by (simp only: add_divide_distrib)
  also have "\<dots> = 1"
    using pos by (simp add: s_def)
  finally show ?thesis .
qed

section \<open>The claims\<close>

text \<open>
  C8. \<open>SubtractVector4(a, b)\<close> subtracts in \<open>x\<close>, \<open>y\<close>, \<open>z\<close> and adds in \<open>w\<close>: the
  result is \<open>(a.x - b.x, a.y - b.y, a.z - b.z, a.w + b.w)\<close>.
\<close>

theorem SubtractVector4_w_adds:
  "SubtractVector4 a b = Vector4 (x4 a - x4 b) (y4 a - y4 b) (z4 a - z4 b) (w4 a + w4 b)"
  by (simp add: SubtractVector4_def Vector4_def)

text \<open>
  C9. \<open>TransformVector3Normal(v, m)\<close> returns the same vector as
  \<open>TransformVector3Coord(v, m)\<close>: the translation entries \<open>n[12]\<close>, \<open>n[13]\<close>, \<open>n[14]\<close>
  are added, as for a position with \<open>w = 1\<close>.
\<close>

theorem TransformVector3Normal_eq_Coord:
  "TransformVector3Normal v m = TransformVector3Coord v m
   \<and> TransformVector3Normal v m =
       Vector3 (x3 v * n0 m + y3 v * n4 m + z3 v * n8 m + n12 m)
               (x3 v * n1 m + y3 v * n5 m + z3 v * n9 m + n13 m)
               (x3 v * n2 m + y3 v * n6 m + z3 v * n10 m + n14 m)"
  by (simp add: TransformVector3Normal_def TransformVector3Coord_def Vector3_def)

text \<open>
  C10. \<open>TransformVector3Coord(v, m)\<close> is the first three components of
  \<open>TransformVector4((v.x, v.y, v.z, 1), m)\<close>, not divided by the fourth; and
  \<open>ProjectViewport\<close> returns exactly these three components for its combined matrix, so
  it performs no perspective divide.
\<close>

theorem TransformVector3Coord_no_divide:
  "TransformVector3Coord v m =
     (let h = TransformVector4 (Vector4 (x3 v) (y3 v) (z3 v) 1) m
      in Vector3 (x4 h) (y4 h) (z4 h))
   \<and> ProjectViewport v viewport projection view world =
     (let t = MultiplyMatrix4
                (OrthographicOffCenterLHMatrix4 (to_float (vp_x viewport))
                   (to_float (vp_x viewport + vp_w viewport)) (to_float (vp_y viewport))
                   (to_float (vp_y viewport + vp_h viewport)) (minZ viewport) (maxZ viewport))
                (MultiplyMatrix4 projection (MultiplyMatrix4 view world));
          h = TransformVector4 (Vector4 (x3 v) (y3 v) (z3 v) 1) t
      in Vector3 (x4 h) (y4 h) (z4 h))"
  by (simp add: TransformVector3Coord_def TransformVector4_def Vector3_def Vector4_def
      ProjectViewport_def Let_def)

text \<open>
  C3. The claim: for every matrix whose determinant is zero, \<open>InverseMatrix4\<close> returns
  the identity matrix. The code, at the matrix with rows \<open>(1,0,1,0)\<close>, \<open>(0,1,0,0)\<close>,
  \<open>(1,0,1,0)\<close>, \<open>(0,0,0,1)\<close>, which is singular (its first and third rows are equal,
  its determinant is \<open>0\<close>): \<open>DeterminantMatrix4\<close> returns \<open>2\<close>, so the guard
  \<open>d == 0.0f\<close> does not fire and the function returns the accumulated sums times
  \<open>1/2\<close>, which is not the identity. The guard itself returns the identity whenever
  the value computed by \<open>DeterminantMatrix4\<close> is zero (\<open>InverseMatrix4_guard\<close>); that
  value is not the determinant.
\<close>

theorem InverseMatrix4_singular_not_identity:
  "(let m = Matrix4 1 0 1 0  0 1 0 0  1 0 1 0  0 0 0 1 in
      general_determinant4 m = 0 \<and> DeterminantMatrix4 m = 2
      \<and> InverseMatrix4 m =
          Matrix4 (1 / 2) 0 (- 1 / 2) 0  0 0 0 0  (- 1 / 2) 0 (1 / 2) 0  0 0 0 0
      \<and> InverseMatrix4 m \<noteq> Matrix4 1 0 0 0  0 1 0 0  0 0 1 0  0 0 0 1)"
proof -
  define m where "m = Matrix4 1 0 1 0  0 1 0 0  1 0 1 0  0 0 0 1"
  have g: "general_determinant4 m = 0"
    by (simp add: m_def Matrix4_def general_determinant4_def)
  have d: "DeterminantMatrix4 m = 2"
    by (simp add: m_def Matrix4_def DeterminantMatrix4_def)
  have "InverseMatrix4 m = InverseMatrix4_scaled m (1 / 2)"
    using InverseMatrix4_nonsingular [of m] d by simp
  also have "\<dots> = Matrix4 (1 / 2) 0 (- 1 / 2) 0  0 0 0 0  (- 1 / 2) 0 (1 / 2) 0  0 0 0 0"
    by (simp add: InverseMatrix4_scaled_def m_def Matrix4_def)
  finally have i: "InverseMatrix4 m =
      Matrix4 (1 / 2) 0 (- 1 / 2) 0  0 0 0 0  (- 1 / 2) 0 (1 / 2) 0  0 0 0 0" .
  have n: "InverseMatrix4 m \<noteq> Matrix4 1 0 0 0  0 1 0 0  0 0 1 0  0 0 0 1"
    unfolding i by (simp add: Matrix4_def)
  from g d i n show ?thesis
    by (simp add: m_def)
qed

text \<open>
  C5. \<open>RotationYawPitchRollMatrix4(y, p, r)\<close> is the product
  \<open>Z(r) * (X(p) * Y(y))\<close>, which is also \<open>(Z(r) * X(p)) * Y(y)\<close>; with the three
  angles zero it is the identity matrix.
\<close>

theorem RotationYawPitchRollMatrix4_order:
  "RotationYawPitchRollMatrix4 y p r =
     MultiplyMatrix4 (RotationZMatrix4 r)
       (MultiplyMatrix4 (RotationXMatrix4 p) (RotationYMatrix4 y))
   \<and> RotationYawPitchRollMatrix4 y p r =
     MultiplyMatrix4 (MultiplyMatrix4 (RotationZMatrix4 r) (RotationXMatrix4 p))
       (RotationYMatrix4 y)
   \<and> RotationYawPitchRollMatrix4 0 0 0 = Matrix4 1 0 0 0  0 1 0 0  0 0 1 0  0 0 0 1"
proof (intro conjI)
  show "RotationYawPitchRollMatrix4 y p r =
     MultiplyMatrix4 (RotationZMatrix4 r)
       (MultiplyMatrix4 (RotationXMatrix4 p) (RotationYMatrix4 y))"
    by (simp add: RotationYawPitchRollMatrix4_def)
  then show "RotationYawPitchRollMatrix4 y p r =
     MultiplyMatrix4 (MultiplyMatrix4 (RotationZMatrix4 r) (RotationXMatrix4 p))
       (RotationYMatrix4 y)"
    by (simp only: MultiplyMatrix4_assoc)
  show "RotationYawPitchRollMatrix4 0 0 0 = Matrix4 1 0 0 0  0 1 0 0  0 0 1 0  0 0 0 1"
    by (simp add: RotationYawPitchRollMatrix4_def RotationXMatrix4_def RotationYMatrix4_def
        RotationZMatrix4_def MultiplyMatrix4_entries Matrix4_default_def Matrix4_def)
qed

text \<open>
  C4. The claim: \<open>DeterminantMatrix4\<close> is zero on every matrix with a repeated row and
  agrees with the general determinant. The code, at the matrix with rows
  \<open>(1,0,1,0)\<close>, \<open>(0,1,0,0)\<close>, \<open>(1,0,1,0)\<close>, \<open>(0,0,0,1)\<close>, whose first and third
  rows are equal: \<open>DeterminantMatrix4\<close> returns \<open>2\<close>, the general determinant is \<open>0\<close>.
  The source sums eight products, seven of them with a plus sign, where the determinant
  has twenty-four signed products.
\<close>

theorem DeterminantMatrix4_repeated_row_nonzero:
  "(let m = Matrix4 1 0 1 0  0 1 0 0  1 0 1 0  0 0 0 1 in
      n0 m = n8 m \<and> n1 m = n9 m \<and> n2 m = n10 m \<and> n3 m = n11 m
      \<and> DeterminantMatrix4 m = 2 \<and> general_determinant4 m = 0)"
  by (simp add: Matrix4_def DeterminantMatrix4_def general_determinant4_def)

text \<open>
  C2. The claim: \<open>MultiplyMatrix4(M, InverseMatrix4(M))\<close> is the identity whenever
  \<open>DeterminantMatrix4(M)\<close> is not zero. The code, at two matrices. At the first,
  \<open>DeterminantMatrix4\<close> returns \<open>4\<close> where the determinant is \<open>-2\<close>, and the product is
  \<open>-1/2\<close> times the identity. At the second, \<open>DeterminantMatrix4\<close> returns the
  determinant \<open>1\<close>, and the product has \<open>-1\<close> in entry \<open>n[3]\<close>: the sum accumulated
  into \<open>a.n[3]\<close> is not the cofactor.
\<close>

theorem MultiplyMatrix4_InverseMatrix4_not_identity:
  "(let m = Matrix4 1 0 1 0  0 1 0 0  3 0 1 0  0 0 0 1 in
      DeterminantMatrix4 m = 4 \<and> general_determinant4 m = - 2 \<and>
      MultiplyMatrix4 m (InverseMatrix4 m) =
        Matrix4 (- 1 / 2) 0 0 0  0 (- 1 / 2) 0 0  0 0 (- 1 / 2) 0  0 0 0 (- 1 / 2))
   \<and> (let m = Matrix4 1 1 0 0  0 1 1 0  0 0 1 0  0 0 1 1 in
      DeterminantMatrix4 m = 1 \<and> general_determinant4 m = 1 \<and>
      MultiplyMatrix4 m (InverseMatrix4 m) =
        Matrix4 1 0 0 (- 1)  0 1 0 0  0 0 1 0  0 0 0 1)"
proof -
  define m where "m = Matrix4 1 0 1 0  0 1 0 0  3 0 1 0  0 0 0 1"
  define k where "k = Matrix4 1 1 0 0  0 1 1 0  0 0 1 0  0 0 1 1"
  have dm: "DeterminantMatrix4 m = 4"
    by (simp add: m_def Matrix4_def DeterminantMatrix4_def)
  have gm: "general_determinant4 m = - 2"
    by (simp add: m_def Matrix4_def general_determinant4_def)
  have "InverseMatrix4 m = InverseMatrix4_scaled m (1 / 4)"
    using InverseMatrix4_nonsingular [of m] dm by simp
  then have pm: "MultiplyMatrix4 m (InverseMatrix4 m) =
      Matrix4 (- 1 / 2) 0 0 0  0 (- 1 / 2) 0 0  0 0 (- 1 / 2) 0  0 0 0 (- 1 / 2)"
    by (simp add: MultiplyMatrix4_InverseMatrix4_scaled gm) (simp add: m_def Matrix4_def)
  have dk: "DeterminantMatrix4 k = 1"
    by (simp add: k_def Matrix4_def DeterminantMatrix4_def)
  have gk: "general_determinant4 k = 1"
    by (simp add: k_def Matrix4_def general_determinant4_def)
  have "InverseMatrix4 k = InverseMatrix4_scaled k 1"
    using InverseMatrix4_nonsingular [of k] dk by simp
  then have pk: "MultiplyMatrix4 k (InverseMatrix4 k) =
      Matrix4 1 0 0 (- 1)  0 1 0 0  0 0 1 0  0 0 0 1"
    by (simp add: MultiplyMatrix4_InverseMatrix4_scaled gk) (simp add: k_def Matrix4_def)
  from dm gm pm dk gk pk show ?thesis
    by (simp add: m_def k_def)
qed

text \<open>
  C6. The claim: \<open>NormalizePlane\<close> rescales all four components, so a point on the
  plane stays on it. The code, at the plane \<open>2z - 2 = 0\<close> and the point \<open>(0,0,1)\<close> on
  it: the result is \<open>(0,0,1,-2)\<close>, with \<open>d\<close> passed through unscaled, and the point is
  at \<open>-1\<close> from it. (The normal of the result does have length one, and \<open>d\<close> is
  unchanged for every plane: \<open>NormalizePlane_unit_normal\<close>, \<open>NormalizePlane_d_unchanged\<close>.)
\<close>

theorem NormalizePlane_moves_plane:
  "(let p = Plane 0 0 2 (- 2); v = Vector3 0 0 1 in
      DotPlaneCoordinate p v = 0
      \<and> NormalizePlane p = Plane 0 0 1 (- 2)
      \<and> DotPlaneCoordinate (NormalizePlane p) v = - 1)"
  by (simp add: Plane_def Vector3_def Vector4_def DotPlaneCoordinate_def DotVector4_def
      NormalizePlane_def NormalizeVector3_def DotVector3_def)

text \<open>
  C7. The claim: for end points on opposite sides of the plane \<open>LineIntersectPlane\<close>
  returns a point of the plane, and for end points on the same side the one nearer to
  the plane. The code, at the plane \<open>z = 0\<close>: for \<open>p0 = (0,0,-1)\<close>, \<open>p1 = (0,0,1)\<close>,
  which are at \<open>-1\<close> and \<open>1\<close> from the plane, it returns \<open>p0\<close>; for \<open>p0 = (0,0,1)\<close>,
  \<open>p1 = (0,0,2)\<close>, both above the plane, it returns \<open>p1\<close>, the farther one. The source
  compares \<open>plane.d\<close> with the lengths of the end points, not with their distances from
  the plane.
\<close>

theorem LineIntersectPlane_misses_plane:
  "(let plane = Plane 0 0 1 0; p0 = Vector3 0 0 (- 1); p1 = Vector3 0 0 1 in
      DotPlaneCoordinate plane p0 = - 1 \<and> DotPlaneCoordinate plane p1 = 1
      \<and> LineIntersectPlane plane p0 p1 = p0
      \<and> DotPlaneCoordinate plane (LineIntersectPlane plane p0 p1) = - 1)
   \<and> (let plane = Plane 0 0 1 0; p0 = Vector3 0 0 1; p1 = Vector3 0 0 2 in
      DotPlaneCoordinate plane p0 = 1 \<and> DotPlaneCoordinate plane p1 = 2
      \<and> LineIntersectPlane plane p0 p1 = p1)"
  by (simp add: Plane_def Vector3_def Vector4_def DotPlaneCoordinate_def DotVector4_def
      LineIntersectPlane_def LengthVector3_def DotVector3_def)

text \<open>
  C1. The claim: with the viewport \<open>(0,0,800,600,0,1)\<close>, identity world and view and
  the projection \<open>PerspectiveFovLHMatrix4(\<pi>/4, 800/600, 0.1, 100)\<close>, unprojecting the
  projection of a point inside the frustum gives the point back within \<open>0.01\<close>. The
  code, at the point \<open>(0,0,1)\<close> on the view axis between the near and the far plane:
  the projected depth is \<open>100/111\<close> and the unprojected depth is \<open>88900/110889\<close>, about
  \<open>0.80\<close>, where the point has depth \<open>1\<close>. \<open>UnprojectViewport\<close> multiplies the same
  matrices in the opposite order and inverts none of them.
\<close>

theorem UnprojectViewport_ProjectViewport_depth:
  "(let p = Vector3 0 0 1;
        viewport = Viewport 0 0 800 600 0 1;
        projection = PerspectiveFovLHMatrix4 (pi / 4) (800 / 600) (1 / 10) 100;
        q = ProjectViewport p viewport projection Matrix4_default Matrix4_default;
        r = UnprojectViewport q viewport projection Matrix4_default Matrix4_default
    in z3 q = 100 / 111 \<and> z3 r = 88900 / 110889 \<and> \<bar>z3 r - z3 p\<bar> > 1 / 100)"
  by (simp add: Vector3_def Viewport_def PerspectiveFovLHMatrix4_def ProjectViewport_def
      UnprojectViewport_def MultiplyMatrix4_entries Matrix4_default_def Matrix4_def
      TransformVector3Coord_def OrthographicOffCenterLHMatrix4_def to_float_def Let_def)

end
